theory Spec2Isabelle
  imports Complex_Main "HOL-Library.Word" "HOL-Library.Sublist"
begin

section \<open>JavaScript strings\<close>

text \<open>
  A JavaScript string is a sequence of UTF-16 code units. \<open>length\<close> is the
  \<^verbatim>\<open>.length\<close> of the source (zod's \<^verbatim>\<open>min(3)\<close> counts code units), and
  \<open>js\<close> turns an ASCII literal of the source into its code units.
\<close>

type_synonym jsstring = "16 word list"

definition js :: "string \<Rightarrow> jsstring" where
  "js s = map of_char s"

text \<open>\<^verbatim>\<open>String.prototype.includes\<close>: the argument occurs as a contiguous substring.\<close>

definition includes_js :: "jsstring \<Rightarrow> jsstring \<Rightarrow> bool" where
  "includes_js s search = sublist search s"

text \<open>
  \<^verbatim>\<open>new Blob([str]).size\<close>: the string is converted to scalar values (a surrogate
  pair is one code point, a lone surrogate becomes U+FFFD) and encoded as UTF-8; the
  size is the number of bytes.
\<close>

definition isHighSurrogate :: "16 word \<Rightarrow> bool" where
  "isHighSurrogate c = (0xD800 \<le> c \<and> c \<le> 0xDBFF)"

definition isLowSurrogate :: "16 word \<Rightarrow> bool" where
  "isLowSurrogate c = (0xDC00 \<le> c \<and> c \<le> 0xDFFF)"

fun getByteLength :: "jsstring \<Rightarrow> nat" where
  "getByteLength [] = 0"
| "getByteLength (c # cs) =
     (if c < 0x80 then 1 + getByteLength cs
      else if c < 0x800 then 2 + getByteLength cs
      else if isHighSurrogate c then
        (case cs of
           [] \<Rightarrow> 3
         | d # ds \<Rightarrow> if isLowSurrogate d then 4 + getByteLength ds else 3 + getByteLength cs)
      else 3 + getByteLength cs)"

section \<open>Data model\<close>

text \<open>
  \<^verbatim>\<open>z.infer<typeof editSchema>\<close> is \<open>details\<close>; the object sent to \<^verbatim>\<open>addDoc\<close>
  (\<^verbatim>\<open>newThumbnailData\<close>) adds the image and the creation time; a \<^verbatim>\<open>Thumbnail\<close>
  adds the identifier. The field \<^verbatim>\<open>id\<close> is \<open>id_of\<close>, a \<^verbatim>\<open>Date\<close> is its time
  value in milliseconds.
\<close>

record details =
  title :: jsstring
  category :: jsstring

record thumbnail_data = details +
  imageUrl :: jsstring
  createdAt :: int

record thumbnail = thumbnail_data +
  id_of :: jsstring

record jsfile =
  size_file :: nat

record upload_values = details +
  image :: "jsfile list"

text \<open>What the forms hold before validation: a field that was never set is \<open>None\<close>.\<close>

record edit_form =
  title_field :: "jsstring option"
  category_field :: "jsstring option"

record upload_form = edit_form +
  image_field :: "jsfile list"

record toast =
  title_toast :: jsstring
  description :: jsstring
  variant :: "jsstring option"

text \<open>A value thrown or rejected: an \<^verbatim>\<open>Error\<close> with its message, or anything else.\<close>

datatype thrown = Error jsstring | NotAnError

text \<open>The requests the page issues to the file reader and to the document store.\<close>

datatype call =
    ReadAsDataURL jsfile
  | AddDoc thumbnail_data
  | UpdateDoc jsstring details
  | DeleteDoc jsstring

text \<open>
  The outcome of every awaited request, the clock, and the platform's
  \<^verbatim>\<open>String.prototype.toLowerCase\<close> (the Unicode case mapping) are given by the environment.
\<close>

record env =
  readAsDataURL :: "jsfile \<Rightarrow> thrown + jsstring"
  addDoc :: "thumbnail_data \<Rightarrow> thrown + jsstring"
  updateDoc :: "jsstring \<Rightarrow> details \<Rightarrow> thrown + unit"
  deleteDoc :: "jsstring \<Rightarrow> thrown + unit"
  now :: int
  toLowerCase :: "jsstring \<Rightarrow> jsstring"

text \<open>
  The state of the page component. \<open>gallery\<close> holds what both revisions of the page
  have; \<open>home\<close> is the \<^verbatim>\<open>Home\<close> component with the edit and delete actions,
  \<open>page\<close> the one of \<^verbatim>\<open>src/app/page.tsx\<close>. \<open>toasts\<close> are the notifications shown
  and \<open>calls\<close> the requests issued, oldest first. The values of the forms are kept
  by the form library and are given to \<open>handleSubmit\<close>; \<^verbatim>\<open>reset()\<close> acts on them
  only. A handler runs from its call to its end with the \<^verbatim>\<open>thumbnails\<close> of the
  render it was created in, and no other handler runs in between.
\<close>

record gallery =
  thumbnails :: "thumbnail list"
  activeCategory :: jsstring
  searchTerm :: jsstring
  imagePreview :: "jsstring option"
  isUploading :: bool
  uploadProgress :: nat
  toasts :: "toast list"
  calls :: "call list"

record home = gallery +
  isUploadDialogOpen :: bool
  isEditDialogOpen :: bool
  editingThumbnail :: "thumbnail option"

record page = gallery +
  isDialogOpen :: bool

definition MAX_DOC_SIZE_BYTES :: nat where
  "MAX_DOC_SIZE_BYTES = 1048487"

text \<open>
  \<^verbatim>\<open>0.7\<close> is the double \<open>3152519739159347 / 2 ^ 52\<close>; the two multiplications by
  1024 are exact in binary floating point.
\<close>

definition MAX_IMAGE_FILE_SIZE_MB :: rat where
  "MAX_IMAGE_FILE_SIZE_MB = 3152519739159347 / 2 ^ 52"

definition MAX_IMAGE_FILE_SIZE_BYTES :: rat where
  "MAX_IMAGE_FILE_SIZE_BYTES = MAX_IMAGE_FILE_SIZE_MB * 1024 * 1024"

definition categories :: "jsstring list" where
  "categories = [js ''All'', js ''Gaming'', js ''Vlog'', js ''Tutorial'', js ''Lifestyle'',
     js ''Tech'', js ''Cooking'', js ''Education'']"

definition toast_show :: "toast \<Rightarrow> 'a gallery_scheme \<Rightarrow> 'a gallery_scheme" where
  "toast_show t s = s\<lparr>toasts := toasts s @ [t]\<rparr>"

definition issue :: "call \<Rightarrow> 'a gallery_scheme \<Rightarrow> 'a gallery_scheme" where
  "issue c s = s\<lparr>calls := calls s @ [c]\<rparr>"

text \<open>
  Observations on the requests issued: which of them go to the store, and the category
  that a write to the store carries.
\<close>

definition is_store_call :: "call \<Rightarrow> bool" where
  "is_store_call c = (case c of ReadAsDataURL f \<Rightarrow> False | _ \<Rightarrow> True)"

definition store_call_count :: "call list \<Rightarrow> nat" where
  "store_call_count cs = length (filter is_store_call cs)"

definition written_category :: "call \<Rightarrow> jsstring option" where
  "written_category c =
     (case c of
        AddDoc d \<Rightarrow> Some (category d)
      | UpdateDoc i d \<Rightarrow> Some (category d)
      | _ \<Rightarrow> None)"

section \<open>Delete and edit\<close>

definition handleDelete :: "env \<Rightarrow> jsstring \<Rightarrow> jsstring \<Rightarrow> home \<Rightarrow> home" where
  "handleDelete e thumbnailId thumbnailTitle s =
     (let s1 = issue (DeleteDoc thumbnailId) s in
      case deleteDoc e thumbnailId of
        Inr _ \<Rightarrow>
          toast_show \<lparr>title_toast = js ''Deleted!'',
              description = js ''Thumbnail '' @ [0x22] @ thumbnailTitle @ [0x22] @ js '' has been removed.'',
              variant = None\<rparr>
            (s1\<lparr>thumbnails := filter (\<lambda>t. id_of t \<noteq> thumbnailId) (thumbnails s)\<rparr>)
      | Inl _ \<Rightarrow>
          toast_show \<lparr>title_toast = js ''Delete Failed'',
              description = js ''There was an error deleting the thumbnail. Please try again.'',
              variant = Some (js ''destructive'')\<rparr> s1)"

definition handleEditDialogClose :: "home \<Rightarrow> home" where
  "handleEditDialogClose s =
     s\<lparr>isEditDialogOpen := False, editingThumbnail := None\<rparr>"

definition onEditSubmit :: "env \<Rightarrow> details \<Rightarrow> home \<Rightarrow> home" where
  "onEditSubmit e values s =
     (case editingThumbnail s of
        None \<Rightarrow> s
      | Some editing \<Rightarrow>
          (let patch = \<lparr>title = title values, category = category values\<rparr>;
               s1 = issue (UpdateDoc (id_of editing) patch) s in
           case updateDoc e (id_of editing) patch of
             Inr _ \<Rightarrow>
               handleEditDialogClose
                 (toast_show \<lparr>title_toast = js ''Success!'',
                      description = js ''Thumbnail details have been updated.'',
                      variant = None\<rparr>
                    (s1\<lparr>thumbnails :=
                        map (\<lambda>t. if id_of t = id_of editing
                                  then t\<lparr>title := title values, category := category values\<rparr>
                                  else t)
                            (thumbnails s)\<rparr>))
           | Inl _ \<Rightarrow>
               toast_show \<lparr>title_toast = js ''Update Failed'',
                   description = js ''There was an error updating the thumbnail. Please try again.'',
                   variant = Some (js ''destructive'')\<rparr> s1))"

section \<open>Validation\<close>

text \<open>
  The zod schemas, as the resolver of the form runs them: the messages of the failed
  checks in the order of the fields, or the parsed values. A refinement that fails does
  not stop the next one. \<^verbatim>\<open>files?.[0]?.size\<close> of an empty list is \<^verbatim>\<open>undefined\<close>,
  and \<^verbatim>\<open>undefined <= n\<close> is false.
\<close>

definition title_issues :: "jsstring option \<Rightarrow> jsstring list" where
  "title_issues t =
     (case t of
        None \<Rightarrow> [js ''Required'']
      | Some v \<Rightarrow> if 3 \<le> length v then [] else [js ''Title must be at least 3 characters.''])"

definition category_issues :: "jsstring option \<Rightarrow> jsstring list" where
  "category_issues c =
     (case c of None \<Rightarrow> [js ''Please select a category.''] | Some v \<Rightarrow> [])"

definition image_required :: "jsfile list \<Rightarrow> bool" where
  "image_required files = (length files = 1)"

definition image_size_ok :: "jsfile list \<Rightarrow> bool" where
  "image_size_ok files =
     (case files of
        [] \<Rightarrow> False
      | f # fs \<Rightarrow> of_nat (size_file f) \<le> MAX_IMAGE_FILE_SIZE_BYTES)"

definition parsed :: "jsstring list \<Rightarrow> 'v option \<Rightarrow> jsstring list + 'v" where
  "parsed issues v =
     (case v of
        None \<Rightarrow> Inl issues
      | Some x \<Rightarrow> if issues = [] then Inr x else Inl issues)"

definition editSchema :: "edit_form \<Rightarrow> jsstring list + details" where
  "editSchema f =
     parsed (title_issues (title_field f) @ category_issues (category_field f))
       (case (title_field f, category_field f) of
          (Some t, Some c) \<Rightarrow> Some \<lparr>title = t, category = c\<rparr>
        | _ \<Rightarrow> None)"

definition uploadSchema :: "upload_form \<Rightarrow> jsstring list + upload_values" where
  "uploadSchema f =
     parsed (title_issues (title_field f) @ category_issues (category_field f)
             @ (if image_required (image_field f) then [] else [js ''Image is required.''])
             @ (if image_size_ok (image_field f) then []
                else [js ''Image must be less than 0.7MB.'']))
       (case (title_field f, category_field f) of
          (Some t, Some c) \<Rightarrow> Some \<lparr>title = t, category = c, image = image_field f\<rparr>
        | _ \<Rightarrow> None)"

text \<open>The schema of \<^verbatim>\<open>src/app/page.tsx\<close>, which has the first refinement only.\<close>

definition uploadSchema_page :: "upload_form \<Rightarrow> jsstring list + upload_values" where
  "uploadSchema_page f =
     parsed (title_issues (title_field f) @ category_issues (category_field f)
             @ (if image_required (image_field f) then [] else [js ''Image is required.'']))
       (case (title_field f, category_field f) of
          (Some t, Some c) \<Rightarrow> Some \<lparr>title = t, category = c, image = image_field f\<rparr>
        | _ \<Rightarrow> None)"

text \<open>
  \<^verbatim>\<open>form.handleSubmit(onValid)\<close>: the resolver runs on the values of the form, and the
  handler is called only with values that passed.
\<close>

definition handleSubmit ::
  "('f \<Rightarrow> jsstring list + 'v) \<Rightarrow> ('v \<Rightarrow> 's \<Rightarrow> 's) \<Rightarrow> 'f \<Rightarrow> 's \<Rightarrow> 's" where
  "handleSubmit resolver onValid f s =
     (case resolver f of Inl issues \<Rightarrow> s | Inr values \<Rightarrow> onValid values s)"

text \<open>The options of the category select of both dialogs.\<close>

definition category_options :: "jsstring list" where
  "category_options = filter (\<lambda>c. c \<noteq> js ''All'') categories"

section \<open>Upload\<close>

definition handleUploadDialogClose :: "home \<Rightarrow> home" where
  "handleUploadDialogClose s =
     s\<lparr>isUploadDialogOpen := False, imagePreview := None\<rparr>"

definition new_thumbnail :: "jsstring \<Rightarrow> thumbnail_data \<Rightarrow> thumbnail" where
  "new_thumbnail docId d =
     \<lparr>title = title d, category = category d, imageUrl = imageUrl d,
      createdAt = createdAt d, id_of = docId\<rparr>"

definition success_toast :: "jsstring \<Rightarrow> toast" where
  "success_toast t =
     \<lparr>title_toast = js ''Success!'',
      description = js ''Thumbnail '' @ [0x22] @ t @ [0x22] @ js '' has been added.'',
      variant = None\<rparr>"

definition too_large :: thrown where
  "too_large = Error (js ''The selected image is too large (over 1MB after encoding). Please choose a smaller file.'')"

text \<open>The \<^verbatim>\<open>catch\<close> block of \<^verbatim>\<open>onUploadSubmit\<close>.\<close>

definition upload_catch :: "env \<Rightarrow> thrown \<Rightarrow> home \<Rightarrow> home" where
  "upload_catch e err s =
     (let errorMessage = (case err of Error m \<Rightarrow> m | NotAnError \<Rightarrow> js ''An unknown error occurred.'');
          toastDescription =
            (if includes_js errorMessage (js ''too large'') then errorMessage
             else if includes_js (toLowerCase e errorMessage) (js ''firestore'')
             then js ''Error communicating with the database. Please check your connection and Firestore setup.''
             else js ''There was an error uploading your thumbnail. Please try again.'')
      in toast_show \<lparr>title_toast = js ''Upload Failed'', description = toastDescription,
                      variant = Some (js ''destructive'')\<rparr> s)"

definition onUploadSubmit :: "env \<Rightarrow> upload_values \<Rightarrow> home \<Rightarrow> home" where
  "onUploadSubmit e values s =
     (case image values of
        [] \<Rightarrow> s
      | file # rest \<Rightarrow>
          (let s0 = s\<lparr>isUploading := True, uploadProgress := 0\<rparr>;
               s1 = issue (ReadAsDataURL file) (s0\<lparr>uploadProgress := 30\<rparr>);
               settled =
                 (case readAsDataURL e file of
                    Inl err \<Rightarrow> upload_catch e err s1
                  | Inr imageDataUrl \<Rightarrow>
                      (let s2 = s1\<lparr>uploadProgress := 60\<rparr> in
                       if getByteLength imageDataUrl > MAX_DOC_SIZE_BYTES
                       then upload_catch e too_large s2
                       else
                         (let newThumbnailData =
                                \<lparr>title = title values, category = category values,
                                 imageUrl = imageDataUrl, createdAt = now e\<rparr>;
                              s3 = issue (AddDoc newThumbnailData) (s2\<lparr>uploadProgress := 80\<rparr>)
                          in case addDoc e newThumbnailData of
                               Inl err \<Rightarrow> upload_catch e err s3
                             | Inr docId \<Rightarrow>
                                 handleUploadDialogClose
                                   (toast_show (success_toast (title values))
                                      (s3\<lparr>thumbnails :=
                                            new_thumbnail docId newThumbnailData # thumbnails s,
                                          uploadProgress := 100\<rparr>)))))
           in settled\<lparr>isUploading := False, uploadProgress := 0\<rparr>))"

text \<open>\<^verbatim>\<open>onSubmit\<close> of \<^verbatim>\<open>src/app/page.tsx\<close>: no check of the encoded size.\<close>

definition onSubmit :: "env \<Rightarrow> upload_values \<Rightarrow> page \<Rightarrow> page" where
  "onSubmit e values s =
     (case image values of
        [] \<Rightarrow> s
      | file # rest \<Rightarrow>
          (let failed = toast_show
                 \<lparr>title_toast = js ''Upload Failed'',
                  description = js ''There was an error uploading your thumbnail. Please try again.'',
                  variant = Some (js ''destructive'')\<rparr>;
               s0 = s\<lparr>isUploading := True, uploadProgress := 0\<rparr>;
               s1 = issue (ReadAsDataURL file) (s0\<lparr>uploadProgress := 30\<rparr>);
               settled =
                 (case readAsDataURL e file of
                    Inl err \<Rightarrow> failed s1
                  | Inr imageDataUrl \<Rightarrow>
                      (let s2 = s1\<lparr>uploadProgress := 60\<rparr>;
                           newThumbnailData =
                             \<lparr>title = title values, category = category values,
                              imageUrl = imageDataUrl, createdAt = now e\<rparr>;
                           s3 = issue (AddDoc newThumbnailData) (s2\<lparr>uploadProgress := 80\<rparr>)
                       in case addDoc e newThumbnailData of
                            Inl err \<Rightarrow> failed s3
                          | Inr docId \<Rightarrow>
                              (toast_show (success_toast (title values))
                                 (s3\<lparr>thumbnails :=
                                       new_thumbnail docId newThumbnailData # thumbnails s,
                                     uploadProgress := 100\<rparr>))
                              \<lparr>isDialogOpen := False, imagePreview := None\<rparr>))
           in settled\<lparr>isUploading := False, uploadProgress := 0\<rparr>))"

section \<open>Filter and search\<close>

definition filteredThumbnails ::
  "env \<Rightarrow> thumbnail list \<Rightarrow> jsstring \<Rightarrow> jsstring \<Rightarrow> thumbnail list" where
  "filteredThumbnails e ts active search =
     filter (\<lambda>thumb. includes_js (toLowerCase e (title thumb)) (toLowerCase e search))
       (filter (\<lambda>thumb. active = js ''All'' \<or> category thumb = active) ts)"

section \<open>Download\<close>

text \<open>The class \<^verbatim>\<open>\s\<close> of a regular expression, on code units.\<close>

definition isSpace :: "16 word \<Rightarrow> bool" where
  "isSpace c =
     (c = 0x9 \<or> c = 0xA \<or> c = 0xB \<or> c = 0xC \<or> c = 0xD \<or> c = 0x20 \<or> c = 0xA0
      \<or> c = 0x1680 \<or> (0x2000 \<le> c \<and> c \<le> 0x200A) \<or> c = 0x2028 \<or> c = 0x2029
      \<or> c = 0x202F \<or> c = 0x205F \<or> c = 0x3000 \<or> c = 0xFEFF)"

text \<open>
  \<^verbatim>\<open>title.replace(/\s+/g, '_')\<close>: from left to right, the longest match at the first
  position that has one is replaced, and the search goes on after it.
\<close>

function replace_spaces :: "jsstring \<Rightarrow> jsstring" where
  "replace_spaces [] = []"
| "replace_spaces (c # cs) =
     (if isSpace c then 0x5F # replace_spaces (dropWhile isSpace cs)
      else c # replace_spaces cs)"
  by pat_completeness auto
termination
  by (relation "measure length") (auto simp: length_dropWhile_le less_Suc_eq_le)

text \<open>\<^verbatim>\<open>str.split(sep)\<close> for a separator of one code unit; the result is never empty.\<close>

fun split_js :: "16 word \<Rightarrow> jsstring \<Rightarrow> jsstring list" where
  "split_js sep [] = [[]]"
| "split_js sep (c # cs) =
     (if c = sep then [] # split_js sep cs
      else (case split_js sep cs of
              [] \<Rightarrow> [[c]]
            | p # ps \<Rightarrow> (c # p) # ps))"

text \<open>\<^verbatim>\<open>xs[i]\<close> of an array: \<^verbatim>\<open>undefined\<close> out of range.\<close>

definition at_js :: "'a list \<Rightarrow> nat \<Rightarrow> 'a option" where
  "at_js xs i = (if i < length xs then Some (xs ! i) else None)"

record link =
  href :: jsstring
  download :: jsstring

text \<open>
  The anchor that \<^verbatim>\<open>handleDownload\<close> clicks; \<open>None\<close> is the \<^verbatim>\<open>TypeError\<close> of
  calling \<^verbatim>\<open>split\<close> on \<^verbatim>\<open>undefined\<close>. An empty string is falsy, so \<^verbatim>\<open>||\<close> replaces
  it as it replaces \<^verbatim>\<open>undefined\<close>.
\<close>

definition handleDownload :: "jsstring \<Rightarrow> jsstring \<Rightarrow> link option" where
  "handleDownload url t =
     (case at_js (split_js 0x3B url) 0 of
        None \<Rightarrow> None
      | Some mime \<Rightarrow>
          (let extension =
                 (case at_js (split_js 0x2F mime) 1 of
                    None \<Rightarrow> js ''png''
                  | Some x \<Rightarrow> if x = [] then js ''png'' else x)
           in Some \<lparr>href = url, download = replace_spaces t @ js ''.'' @ extension\<rparr>))"

text \<open>
  The file name in the words of the specification. \<open>runs\<close> cuts a list into its maximal
  runs of elements that agree on \<open>P\<close>; a run of white space becomes one underscore.
  The subtype is the text between the first slash and the first semicolon.
\<close>

function runs :: "('a \<Rightarrow> bool) \<Rightarrow> 'a list \<Rightarrow> 'a list list" where
  "runs P [] = []"
| "runs P (x # xs) =
     (x # takeWhile (\<lambda>y. P y = P x) xs) # runs P (dropWhile (\<lambda>y. P y = P x) xs)"
  by pat_completeness auto
termination
  by (relation "measure (\<lambda>(P, xs). length xs)") (auto simp: length_dropWhile_le less_Suc_eq_le)

definition underscore_runs_spec :: "jsstring \<Rightarrow> jsstring" where
  "underscore_runs_spec t =
     concat (map (\<lambda>r. case r of [] \<Rightarrow> [] | c # cs \<Rightarrow> if isSpace c then [0x5F] else r)
                 (runs isSpace t))"

definition first_index :: "'a \<Rightarrow> 'a list \<Rightarrow> nat option" where
  "first_index c s = (if c \<in> set s then Some (length (takeWhile (\<lambda>x. x \<noteq> c) s)) else None)"

definition subtype_spec :: "jsstring \<Rightarrow> jsstring option" where
  "subtype_spec url =
     (case (first_index 0x2F url, first_index 0x3B url) of
        (Some i, Some j) \<Rightarrow> if i < j then Some (take (j - i - 1) (drop (i + 1) url)) else None
      | _ \<Rightarrow> None)"

definition download_name_spec :: "jsstring \<Rightarrow> jsstring \<Rightarrow> jsstring" where
  "download_name_spec url t =
     underscore_runs_spec t @ js ''.''
       @ (case subtype_spec url of
            None \<Rightarrow> js ''png''
          | Some x \<Rightarrow> if x = [] then js ''png'' else x)"

text \<open>
  What the two \<^verbatim>\<open>split\<close> calls select: in the text before the first semicolon, what
  stands after the first slash, up to the next slash.
\<close>

definition second_segment :: "jsstring \<Rightarrow> jsstring" where
  "second_segment url =
     takeWhile (\<lambda>c. c \<noteq> 0x2F)
       (drop 1 (dropWhile (\<lambda>c. c \<noteq> 0x2F) (takeWhile (\<lambda>c. c \<noteq> 0x3B) url)))"

section \<open>Critique\<close>

text \<open>
  A JavaScript number is a double: a rational, an infinity or NaN. A value that the
  model returns is a JSON-like value; the fields of an object have distinct keys.
\<close>

datatype jsnumber = Finite rat | PosInfinity | NegInfinity | NaN

datatype json =
    JNull
  | JBool bool
  | JNumber jsnumber
  | JString jsstring
  | JArray "json list"
  | JObject "(string \<times> json) list"

record critique_input =
  imageDataUri :: jsstring

record critique_output =
  engagementScore :: rat
  clarityScore :: rat
  colorScore :: rat
  overallVerdict :: jsstring
  suggestions :: "jsstring list"

text \<open>
  The zod parsers of \<^verbatim>\<open>CritiqueThumbnailOutputSchema\<close>. \<^verbatim>\<open>z.number()\<close> refuses NaN,
  and \<^verbatim>\<open>min(0).max(100)\<close> the infinities; a key that is absent is \<^verbatim>\<open>undefined\<close>,
  which every parser here refuses; \<^verbatim>\<open>describe\<close> adds a description and checks nothing.
\<close>

definition z_number_min_max :: "rat \<Rightarrow> rat \<Rightarrow> json option \<Rightarrow> rat option" where
  "z_number_min_max lo hi v =
     (case v of
        Some (JNumber (Finite x)) \<Rightarrow> if lo \<le> x \<and> x \<le> hi then Some x else None
      | _ \<Rightarrow> None)"

definition z_string :: "json option \<Rightarrow> jsstring option" where
  "z_string v = (case v of Some (JString x) \<Rightarrow> Some x | _ \<Rightarrow> None)"

definition z_array_string :: "json option \<Rightarrow> jsstring list option" where
  "z_array_string v =
     (case v of
        Some (JArray xs) \<Rightarrow> those (map (\<lambda>x. z_string (Some x)) xs)
      | _ \<Rightarrow> None)"

definition CritiqueThumbnailOutputSchema :: "json \<Rightarrow> critique_output option" where
  "CritiqueThumbnailOutputSchema v =
     (case v of
        JObject props \<Rightarrow>
          (case (z_number_min_max 0 100 (map_of props ''engagementScore''),
                 z_number_min_max 0 100 (map_of props ''clarityScore''),
                 z_number_min_max 0 100 (map_of props ''colorScore''),
                 z_string (map_of props ''overallVerdict''),
                 z_array_string (map_of props ''suggestions'')) of
             (Some es, Some cs, Some ks, Some ov, Some sg) \<Rightarrow>
               Some \<lparr>engagementScore = es, clarityScore = cs, colorScore = ks,
                     overallVerdict = ov, suggestions = sg\<rparr>
           | _ \<Rightarrow> None)
      | _ \<Rightarrow> None)"

text \<open>
  The flow: the prompt is the external model (it throws, or gives an output, which is
  \<open>JNull\<close> when it has none), and the flow's \<^verbatim>\<open>outputSchema\<close> is checked on what the
  body returns.
\<close>

datatype flow_error = PromptFailed thrown | OutputInvalid

definition critiqueThumbnailFlow ::
  "(critique_input \<Rightarrow> thrown + json) \<Rightarrow> critique_input \<Rightarrow> flow_error + critique_output" where
  "critiqueThumbnailFlow prompt input =
     (case prompt input of
        Inl err \<Rightarrow> Inl (PromptFailed err)
      | Inr output \<Rightarrow>
          (case CritiqueThumbnailOutputSchema output of
             None \<Rightarrow> Inl OutputInvalid
           | Some r \<Rightarrow> Inr r))"

definition critiqueThumbnail ::
  "(critique_input \<Rightarrow> thrown + json) \<Rightarrow> critique_input \<Rightarrow> flow_error + critique_output" where
  "critiqueThumbnail prompt input = critiqueThumbnailFlow prompt input"

section \<open>Sample values\<close>

text \<open>Concrete inputs on which the properties below are evaluated.\<close>

definition lower_ascii :: "jsstring \<Rightarrow> jsstring" where
  "lower_ascii s = map (\<lambda>c. if 0x41 \<le> c \<and> c \<le> 0x5A then c + 0x20 else c) s"

definition sample_thumbnails :: "thumbnail list" where
  "sample_thumbnails =
     [\<lparr>title = js ''My Trip'', category = js ''Vlog'', imageUrl = js ''data:image/png;base64,CCCC'',
       createdAt = 3, id_of = js ''t3''\<rparr>,
      \<lparr>title = js ''React Hooks'', category = js ''Tutorial'', imageUrl = js ''data:image/jpeg;base64,BBBB'',
       createdAt = 2, id_of = js ''t2''\<rparr>,
      \<lparr>title = js ''Epic Montage'', category = js ''Gaming'', imageUrl = js ''data:image/png;base64,AAAA'',
       createdAt = 1, id_of = js ''t1''\<rparr>]"

definition sample_env :: env where
  "sample_env =
     \<lparr>readAsDataURL = (\<lambda>f. Inr (js ''data:image/png;base64,DDDD'')),
      addDoc = (\<lambda>d. Inr (js ''t4'')),
      updateDoc = (\<lambda>i d. Inr ()),
      deleteDoc = (\<lambda>i. Inr ()),
      now = 4,
      toLowerCase = lower_ascii\<rparr>"

definition sample_form :: upload_form where
  "sample_form = \<lparr>title_field = Some (js ''New Video''), category_field = Some (js ''Tech''),
     image_field = [\<lparr>size_file = 3\<rparr>]\<rparr>"

definition sample_home :: home where
  "sample_home =
     \<lparr>thumbnails = sample_thumbnails, activeCategory = js ''All'', searchTerm = [],
      imagePreview = None, isUploading = False, uploadProgress = 0, toasts = [], calls = [],
      isUploadDialogOpen = True, isEditDialogOpen = False, editingThumbnail = None\<rparr>"

definition sample_page :: page where
  "sample_page =
     \<lparr>thumbnails = sample_thumbnails, activeCategory = js ''All'', searchTerm = [],
      imagePreview = None, isUploading = False, uploadProgress = 0, toasts = [], calls = [],
      isDialogOpen = True\<rparr>"

text \<open>
  A PNG file of 786,351 bytes, whose data URI has 22 + 1,048,468 bytes, and a JPEG file of
  786,348 bytes, whose data URI has 23 + 1,048,464 = 1,048,487 bytes.
\<close>

definition oversize_url :: jsstring where
  "oversize_url = js ''data:image/png;base64,'' @ replicate 1048468 0x41"

definition limit_url :: jsstring where
  "limit_url = js ''data:image/jpeg;base64,'' @ replicate 1048464 0x41"

definition oversize_values :: upload_values where
  "oversize_values =
     \<lparr>title = js ''New Video'', category = js ''Tech'', image = [\<lparr>size_file = 786351\<rparr>]\<rparr>"

definition limit_values :: upload_values where
  "limit_values =
     \<lparr>title = js ''New Video'', category = js ''Tech'', image = [\<lparr>size_file = 786348\<rparr>]\<rparr>"

definition oversize_env :: env where
  "oversize_env = sample_env\<lparr>readAsDataURL := (\<lambda>f. Inr oversize_url)\<rparr>"

definition limit_env :: env where
  "limit_env = sample_env\<lparr>readAsDataURL := (\<lambda>f. Inr limit_url)\<rparr>"

definition sample_values :: upload_values where
  "sample_values = \<lparr>title = js ''New Video'', category = js ''Tech'', image = [\<lparr>size_file = 3\<rparr>]\<rparr>"

definition rejecting_env :: env where
  "rejecting_env = sample_env\<lparr>addDoc := (\<lambda>d. Inl (Error (js ''Firestore: PERMISSION_DENIED'')))\<rparr>"

definition unreadable_env :: env where
  "unreadable_env = sample_env\<lparr>readAsDataURL := (\<lambda>f. Inl NotAnError)\<rparr>"

definition editing_home :: home where
  "editing_home = sample_home\<lparr>isEditDialogOpen := True, editingThumbnail := Some (sample_thumbnails ! 1)\<rparr>"

definition sample_details :: details where
  "sample_details = \<lparr>title = js ''Vue Basics'', category = js ''Education''\<rparr>"

definition all_form :: upload_form where
  "all_form = \<lparr>title_field = Some (js ''abc''), category_field = Some (js ''All''),
     image_field = [\<lparr>size_file = 3\<rparr>]\<rparr>"

definition large_form :: upload_form where
  "large_form = sample_form\<lparr>image_field := [\<lparr>size_file = 734004\<rparr>]\<rparr>"

definition sample_edit_form :: edit_form where
  "sample_edit_form = \<lparr>title_field = Some (js ''Vue Basics''), category_field = Some (js ''Education'')\<rparr>"

definition no_suggestions :: json where
  "no_suggestions =
     JObject [(''engagementScore'', JNumber (Finite 80)), (''clarityScore'', JNumber (Finite 65)),
       (''colorScore'', JNumber (Finite 100)), (''overallVerdict'', JString (js ''Clear and bold.'')),
       (''suggestions'', JArray [])]"

definition svg_thumbnail :: thumbnail where
  "svg_thumbnail =
     \<lparr>title = js ''My  Trip to  Japan'', category = js ''Vlog'',
      imageUrl = js ''data:image/svg+xml;base64,AAAA'', createdAt = 5, id_of = js ''t5''\<rparr>"

section \<open>Properties\<close>

subsection \<open>Create\<close>

lemma uploadSchema_Inr:
  "uploadSchema f = Inr v \<Longrightarrow>
     title_field f = Some (title v) \<and> category_field f = Some (category v) \<and>
     image v = image_field f \<and> 3 \<le> length (title v) \<and> image_required (image_field f) \<and>
     image_size_ok (image_field f)"
  by (auto simp: uploadSchema_def parsed_def title_issues_def category_issues_def
           split: option.splits if_splits)

lemma uploadSchema_page_of_uploadSchema:
  "uploadSchema f = Inr v \<Longrightarrow> uploadSchema_page f = Inr v"
  by (auto simp: uploadSchema_def uploadSchema_page_def parsed_def title_issues_def category_issues_def
           split: option.splits if_splits)

lemma onUploadSubmit_ack:
  assumes "image values = file # rest"
    and "readAsDataURL e file = Inr url"
    and "getByteLength url \<le> MAX_DOC_SIZE_BYTES"
    and "addDoc e \<lparr>title = title values, category = category values, imageUrl = url,
                    createdAt = now e\<rparr> = Inr docId"
  shows "thumbnails (onUploadSubmit e values s) =
           \<lparr>title = title values, category = category values, imageUrl = url,
            createdAt = now e, id_of = docId\<rparr> # thumbnails s"
  using assms
  by (simp add: onUploadSubmit_def Let_def issue_def toast_show_def handleUploadDialogClose_def
        new_thumbnail_def)

lemma onSubmit_ack:
  assumes "image values = file # rest"
    and "readAsDataURL e file = Inr url"
    and "addDoc e \<lparr>title = title values, category = category values, imageUrl = url,
                    createdAt = now e\<rparr> = Inr docId"
  shows "thumbnails (onSubmit e values s) =
           \<lparr>title = title values, category = category values, imageUrl = url,
            createdAt = now e, id_of = docId\<rparr> # thumbnails s"
  using assms
  by (simp add: onSubmit_def Let_def issue_def toast_show_def new_thumbnail_def)

text \<open>
  C1. When the values of the form pass validation, the file is read into a data URI of
  at most 1,048,487 bytes and the store acknowledges the new document with an
  identifier, the list in memory is the new record, with that identifier and the
  creation time taken from the client's clock, followed by the list as it was. This holds
  for \<^verbatim>\<open>onUploadSubmit\<close> and for \<^verbatim>\<open>onSubmit\<close> of \<^verbatim>\<open>src/app/page.tsx\<close>.
\<close>

theorem create_prepends_record:
  assumes "uploadSchema f = Inr values"
    and "image values = [file]"
    and "readAsDataURL e file = Inr url"
    and "getByteLength url \<le> MAX_DOC_SIZE_BYTES"
    and "addDoc e \<lparr>title = title values, category = category values, imageUrl = url,
                    createdAt = now e\<rparr> = Inr docId"
  shows "thumbnails (handleSubmit uploadSchema (onUploadSubmit e) f s) =
           \<lparr>title = title values, category = category values, imageUrl = url,
            createdAt = now e, id_of = docId\<rparr> # thumbnails s
       \<and> thumbnails (handleSubmit uploadSchema_page (onSubmit e) f p) =
           \<lparr>title = title values, category = category values, imageUrl = url,
            createdAt = now e, id_of = docId\<rparr> # thumbnails p"
  using assms uploadSchema_page_of_uploadSchema [OF assms(1)]
  by (simp add: handleSubmit_def onUploadSubmit_ack onSubmit_ack)

lemma sample_form_valid:
  "uploadSchema sample_form =
     Inr \<lparr>title = js ''New Video'', category = js ''Tech'', image = [\<lparr>size_file = 3\<rparr>]\<rparr>"
  by (simp add: uploadSchema_def sample_form_def parsed_def title_issues_def category_issues_def
        image_required_def image_size_ok_def MAX_IMAGE_FILE_SIZE_BYTES_def
        MAX_IMAGE_FILE_SIZE_MB_def js_def)

lemma getByteLength_ascii:
  "\<forall>c \<in> set s. c < 0x80 \<Longrightarrow> getByteLength s = length s"
  by (induction s) auto

theorem create_prepends_record_witness:
  "thumbnails (handleSubmit uploadSchema (onUploadSubmit sample_env) sample_form sample_home) =
     \<lparr>title = js ''New Video'', category = js ''Tech'', imageUrl = js ''data:image/png;base64,DDDD'',
      createdAt = 4, id_of = js ''t4''\<rparr> # sample_thumbnails
   \<and> thumbnails (handleSubmit uploadSchema_page (onSubmit sample_env) sample_form sample_page) =
     \<lparr>title = js ''New Video'', category = js ''Tech'', imageUrl = js ''data:image/png;base64,DDDD'',
      createdAt = 4, id_of = js ''t4''\<rparr> # sample_thumbnails"
proof -
  have size: "getByteLength (js ''data:image/png;base64,DDDD'') \<le> MAX_DOC_SIZE_BYTES"
    by (simp add: getByteLength_ascii js_def MAX_DOC_SIZE_BYTES_def)
  show ?thesis
    using create_prepends_record [OF sample_form_valid, of "\<lparr>size_file = 3\<rparr>" sample_env
        "js ''data:image/png;base64,DDDD''" "js ''t4''" sample_home sample_page] size
    by (simp add: sample_env_def sample_home_def sample_page_def)
qed

lemma upload_catch_frame:
  "thumbnails (upload_catch e err s) = thumbnails s"
  "calls (upload_catch e err s) = calls s"
  by (simp_all add: upload_catch_def Let_def toast_show_def)

lemma too_large_message:
  "includes_js (js ''The selected image is too large (over 1MB after encoding). Please choose a smaller file.'')
     (js ''too large'')"
  by (simp add: includes_js_def js_def sublist_code)

lemma upload_catch_too_large:
  "toasts (upload_catch e too_large s) =
     toasts s @ [\<lparr>title_toast = js ''Upload Failed'',
        description = js ''The selected image is too large (over 1MB after encoding). Please choose a smaller file.'',
        variant = Some (js ''destructive'')\<rparr>]"
  using too_large_message by (simp add: upload_catch_def too_large_def toast_show_def)

text \<open>
  C2. When the data URI read from the file has more than 1,048,487 bytes in UTF-8,
  \<^verbatim>\<open>onUploadSubmit\<close> ends with the "too large" notification: the only request it has
  issued is the read of the file, the number of calls to the store is what it was, and
  the list is unchanged. A data URI of exactly 1,048,487 bytes passes the check, and the
  write to the store is issued.
\<close>

theorem oversize_rejected_before_store:
  assumes "image values = file # rest" and "readAsDataURL e file = Inr url"
  shows "(MAX_DOC_SIZE_BYTES < getByteLength url \<longrightarrow>
            calls (onUploadSubmit e values s) = calls s @ [ReadAsDataURL file]
          \<and> store_call_count (calls (onUploadSubmit e values s)) = store_call_count (calls s)
          \<and> thumbnails (onUploadSubmit e values s) = thumbnails s
          \<and> toasts (onUploadSubmit e values s) =
              toasts s @ [\<lparr>title_toast = js ''Upload Failed'',
                description = js ''The selected image is too large (over 1MB after encoding). Please choose a smaller file.'',
                variant = Some (js ''destructive'')\<rparr>])
       \<and> (getByteLength url = 1048487 \<longrightarrow>
            calls (onUploadSubmit e values s) =
              calls s @ [ReadAsDataURL file,
                AddDoc \<lparr>title = title values, category = category values, imageUrl = url,
                        createdAt = now e\<rparr>])"
proof (intro conjI impI)
  assume big: "MAX_DOC_SIZE_BYTES < getByteLength url"
  have run: "onUploadSubmit e values s =
      (upload_catch e too_large
         (issue (ReadAsDataURL file) (s\<lparr>isUploading := True, uploadProgress := 0, uploadProgress := 30\<rparr>)
            \<lparr>uploadProgress := 60\<rparr>))
      \<lparr>isUploading := False, uploadProgress := 0\<rparr>"
    using assms big by (simp add: onUploadSubmit_def Let_def)
  show "calls (onUploadSubmit e values s) = calls s @ [ReadAsDataURL file]"
    by (simp add: run upload_catch_frame issue_def)
  then show "store_call_count (calls (onUploadSubmit e values s)) = store_call_count (calls s)"
    by (simp add: store_call_count_def is_store_call_def)
  show "thumbnails (onUploadSubmit e values s) = thumbnails s"
    by (simp add: run upload_catch_frame issue_def)
  show "toasts (onUploadSubmit e values s) =
      toasts s @ [\<lparr>title_toast = js ''Upload Failed'',
        description = js ''The selected image is too large (over 1MB after encoding). Please choose a smaller file.'',
        variant = Some (js ''destructive'')\<rparr>]"
    by (simp add: run upload_catch_too_large issue_def)
next
  assume "getByteLength url = 1048487"
  then show "calls (onUploadSubmit e values s) =
      calls s @ [ReadAsDataURL file,
        AddDoc \<lparr>title = title values, category = category values, imageUrl = url,
                createdAt = now e\<rparr>]"
    using assms
    by (simp add: onUploadSubmit_def Let_def MAX_DOC_SIZE_BYTES_def issue_def upload_catch_frame
          toast_show_def handleUploadDialogClose_def split: sum.split)
qed

lemma getByteLength_counts_bytes:
  "getByteLength [0x41, 0xE9, 0x20AC, 0xD83D, 0xDE00] = 10 \<and> length [0x41, 0xE9, 0x20AC, 0xD83D, 0xDE00 :: 16 word] = 5"
  by (simp add: isHighSurrogate_def isLowSurrogate_def)

lemma getByteLength_sample_urls:
  "getByteLength oversize_url = 1048490" "getByteLength limit_url = 1048487"
proof -
  have "\<forall>c \<in> set oversize_url. c < 0x80" "\<forall>c \<in> set limit_url. c < 0x80"
    by (simp_all add: oversize_url_def limit_url_def js_def ball_Un)
  then show "getByteLength oversize_url = 1048490" "getByteLength limit_url = 1048487"
    by (simp_all add: getByteLength_ascii) (simp_all add: oversize_url_def limit_url_def js_def)
qed

theorem oversize_rejected_before_store_witness:
  "calls (onUploadSubmit oversize_env oversize_values sample_home) = [ReadAsDataURL \<lparr>size_file = 786351\<rparr>]
   \<and> store_call_count (calls (onUploadSubmit oversize_env oversize_values sample_home)) = 0
   \<and> thumbnails (onUploadSubmit oversize_env oversize_values sample_home) = sample_thumbnails
   \<and> calls (onUploadSubmit limit_env limit_values sample_home) =
       [ReadAsDataURL \<lparr>size_file = 786348\<rparr>,
        AddDoc \<lparr>title = js ''New Video'', category = js ''Tech'',
                imageUrl = limit_url, createdAt = 4\<rparr>]"
  using oversize_rejected_before_store [of oversize_values "\<lparr>size_file = 786351\<rparr>" "[]" oversize_env
      oversize_url sample_home]
    oversize_rejected_before_store [of limit_values "\<lparr>size_file = 786348\<rparr>" "[]" limit_env
      limit_url sample_home]
  by (simp add: getByteLength_sample_urls oversize_values_def limit_values_def oversize_env_def
        limit_env_def sample_env_def sample_home_def MAX_DOC_SIZE_BYTES_def store_call_count_def
        is_store_call_def)

text \<open>
  C3. When the read of the file fails, or the encoded size is over the limit, or the
  store rejects the write, \<^verbatim>\<open>onUploadSubmit\<close> leaves the list of thumbnails as it was.
\<close>

theorem failed_create_keeps_list:
  assumes "image values = file # rest"
    and "(\<exists>err. readAsDataURL e file = Inl err)
       \<or> (\<exists>url. readAsDataURL e file = Inr url
            \<and> (MAX_DOC_SIZE_BYTES < getByteLength url
               \<or> (\<exists>err. addDoc e \<lparr>title = title values, category = category values,
                                   imageUrl = url, createdAt = now e\<rparr> = Inl err)))"
  shows "thumbnails (onUploadSubmit e values s) = thumbnails s"
  using assms
  by (auto simp: onUploadSubmit_def Let_def upload_catch_frame issue_def)


theorem failed_create_keeps_list_witness:
  "thumbnails (onUploadSubmit rejecting_env sample_values sample_home) = sample_thumbnails
   \<and> thumbnails (onUploadSubmit unreadable_env sample_values sample_home) = sample_thumbnails
   \<and> thumbnails (onUploadSubmit oversize_env oversize_values sample_home) = sample_thumbnails"
  using failed_create_keeps_list [of sample_values "\<lparr>size_file = 3\<rparr>" "[]" rejecting_env sample_home]
    failed_create_keeps_list [of sample_values "\<lparr>size_file = 3\<rparr>" "[]" unreadable_env sample_home]
    failed_create_keeps_list [of oversize_values "\<lparr>size_file = 786351\<rparr>" "[]" oversize_env sample_home]
  by (simp add: getByteLength_sample_urls sample_values_def oversize_values_def rejecting_env_def
        unreadable_env_def oversize_env_def sample_env_def sample_home_def MAX_DOC_SIZE_BYTES_def)

lemma onEditSubmit_ack:
  assumes "editingThumbnail s = Some editing"
    and "updateDoc e (id_of editing) \<lparr>title = title values, category = category values\<rparr> = Inr u"
  shows "thumbnails (onEditSubmit e values s) =
           map (\<lambda>t. if id_of t = id_of editing
                     then t\<lparr>title := title values, category := category values\<rparr> else t)
               (thumbnails s)"
  using assms
  by (simp add: onEditSubmit_def Let_def issue_def toast_show_def handleEditDialogClose_def)

subsection \<open>Update, delete, filter\<close>

text \<open>
  C4. When the store acknowledges the update of the record being edited, the list keeps
  its length and every position keeps its record's identifier, image and creation time;
  a record with the identifier of the edited one has the new title and category, and
  every other record is as it was.
\<close>

theorem update_changes_only_title_and_category:
  assumes "editingThumbnail s = Some editing"
    and "updateDoc e (id_of editing) \<lparr>title = title values, category = category values\<rparr> = Inr u"
  shows "length (thumbnails (onEditSubmit e values s)) = length (thumbnails s)
       \<and> (\<forall>i < length (thumbnails s).
             id_of (thumbnails (onEditSubmit e values s) ! i) = id_of (thumbnails s ! i)
           \<and> imageUrl (thumbnails (onEditSubmit e values s) ! i) = imageUrl (thumbnails s ! i)
           \<and> createdAt (thumbnails (onEditSubmit e values s) ! i) = createdAt (thumbnails s ! i)
           \<and> (if id_of (thumbnails s ! i) = id_of editing
               then title (thumbnails (onEditSubmit e values s) ! i) = title values
                  \<and> category (thumbnails (onEditSubmit e values s) ! i) = category values
               else thumbnails (onEditSubmit e values s) ! i = thumbnails s ! i))"
  by (simp add: onEditSubmit_ack [OF assms])

theorem update_changes_only_title_and_category_witness:
  "length (thumbnails (onEditSubmit sample_env sample_details editing_home)) = 3
   \<and> thumbnails (onEditSubmit sample_env sample_details editing_home) ! 0 = sample_thumbnails ! 0
   \<and> title (thumbnails (onEditSubmit sample_env sample_details editing_home) ! 1) = js ''Vue Basics''
   \<and> category (thumbnails (onEditSubmit sample_env sample_details editing_home) ! 1) = js ''Education''
   \<and> imageUrl (thumbnails (onEditSubmit sample_env sample_details editing_home) ! 1)
       = js ''data:image/jpeg;base64,BBBB''
   \<and> createdAt (thumbnails (onEditSubmit sample_env sample_details editing_home) ! 1) = 2"
proof -
  have ed: "editingThumbnail editing_home = Some (sample_thumbnails ! 1)"
    by (simp add: editing_home_def)
  have ack: "updateDoc sample_env (id_of (sample_thumbnails ! 1))
      \<lparr>title = title sample_details, category = category sample_details\<rparr> = Inr ()"
    by (simp add: sample_env_def)
  have ts: "thumbnails editing_home = sample_thumbnails"
    by (simp add: editing_home_def sample_home_def)
  note inst = update_changes_only_title_and_category [OF ed ack, unfolded ts]
  from inst have len: "length (thumbnails (onEditSubmit sample_env sample_details editing_home)) = 3"
    by (simp add: sample_thumbnails_def)
  from inst have at0: "0 < length sample_thumbnails \<longrightarrow>
      (if id_of (sample_thumbnails ! 0) = id_of (sample_thumbnails ! 1)
       then title (thumbnails (onEditSubmit sample_env sample_details editing_home) ! 0) = title sample_details
          \<and> category (thumbnails (onEditSubmit sample_env sample_details editing_home) ! 0) = category sample_details
       else thumbnails (onEditSubmit sample_env sample_details editing_home) ! 0 = sample_thumbnails ! 0)"
    by blast
  from inst have at1: "1 < length sample_thumbnails \<longrightarrow>
      imageUrl (thumbnails (onEditSubmit sample_env sample_details editing_home) ! 1) = imageUrl (sample_thumbnails ! 1)
    \<and> createdAt (thumbnails (onEditSubmit sample_env sample_details editing_home) ! 1) = createdAt (sample_thumbnails ! 1)
    \<and> (if id_of (sample_thumbnails ! 1) = id_of (sample_thumbnails ! 1)
       then title (thumbnails (onEditSubmit sample_env sample_details editing_home) ! 1) = title sample_details
          \<and> category (thumbnails (onEditSubmit sample_env sample_details editing_home) ! 1) = category sample_details
       else thumbnails (onEditSubmit sample_env sample_details editing_home) ! 1 = sample_thumbnails ! 1)"
    by blast
  have neq: "id_of (sample_thumbnails ! 0) \<noteq> id_of (sample_thumbnails ! 1)"
    by (simp add: sample_thumbnails_def js_def)
  have l3: "length sample_thumbnails = 3"
    by (simp add: sample_thumbnails_def)
  have t1: "imageUrl (sample_thumbnails ! 1) = js ''data:image/jpeg;base64,BBBB''"
    "createdAt (sample_thumbnails ! 1) = 2"
    by (simp_all add: sample_thumbnails_def)
  show ?thesis
    using len at0 at1 neq l3 t1 by (simp add: sample_details_def)
qed

lemma handleDelete_ack:
  "deleteDoc e x = Inr u \<Longrightarrow>
   thumbnails (handleDelete e x t s) = filter (\<lambda>t. id_of t \<noteq> x) (thumbnails s)"
  by (simp add: handleDelete_def toast_show_def issue_def)

lemma filter_out_unique:
  assumes "distinct (map f xs)" and "x \<in> f ` set xs"
  shows "\<exists>pre r post. xs = pre @ r # post \<and> f r = x \<and> filter (\<lambda>t. f t \<noteq> x) xs = pre @ post"
proof -
  from assms(2) obtain r where r: "r \<in> set xs" "f r = x" by auto
  then obtain pre post where xs: "xs = pre @ r # post" by (auto dest: split_list)
  from assms(1) xs r have "\<forall>t \<in> set pre. f t \<noteq> x" "\<forall>t \<in> set post. f t \<noteq> x"
    by (auto simp: image_iff)
  then have "filter (\<lambda>t. f t \<noteq> x) xs = pre @ post"
    using xs r by simp
  with xs r show ?thesis by blast
qed

text \<open>
  C5. When the store acknowledges the delete of \<open>x\<close>, the list keeps, in their order,
  the records whose identifier is not \<open>x\<close>. Identifiers are given by the store, one per
  document: when they are distinct in the list and \<open>x\<close> is the identifier of a record of
  the list, the result is the list without that one record.
\<close>

theorem delete_removes_the_record:
  assumes "deleteDoc e x = Inr u"
  shows "thumbnails (handleDelete e x t s) = filter (\<lambda>r. id_of r \<noteq> x) (thumbnails s)
       \<and> (distinct (map id_of (thumbnails s)) \<and> x \<in> id_of ` set (thumbnails s) \<longrightarrow>
            (\<exists>pre r post. thumbnails s = pre @ r # post \<and> id_of r = x
               \<and> thumbnails (handleDelete e x t s) = pre @ post))"
  using filter_out_unique [of id_of "thumbnails s" x] by (simp add: handleDelete_ack [OF assms])

theorem delete_removes_the_record_witness:
  "\<exists>pre r post. sample_thumbnails = pre @ r # post \<and> id_of r = js ''t3''
      \<and> thumbnails (handleDelete sample_env (js ''t3'') (js ''My Trip'') sample_home) = pre @ post"
proof -
  have ack: "deleteDoc sample_env (js ''t3'') = Inr ()"
    by (simp add: sample_env_def)
  have ids: "distinct (map id_of (thumbnails sample_home))
      \<and> js ''t3'' \<in> id_of ` set (thumbnails sample_home)"
    by (simp add: sample_home_def sample_thumbnails_def js_def)
  from delete_removes_the_record [OF ack, of "js ''My Trip''" sample_home] ids
  have "\<exists>pre r post. thumbnails sample_home = pre @ r # post \<and> id_of r = js ''t3''
      \<and> thumbnails (handleDelete sample_env (js ''t3'') (js ''My Trip'') sample_home) = pre @ post"
    by blast
  then show ?thesis
    by (simp add: sample_home_def)
qed

text \<open>
  C6. \<open>filteredThumbnails\<close> is a function of the list, the category and the search
  term; filtering its result again with the same category and search term changes nothing,
  and with the category "All" and the empty search term it returns the list as it is
  (\<^verbatim>\<open>toLowerCase\<close> of the empty string is the empty string).
\<close>

theorem filter_idempotent_and_identity:
  "filteredThumbnails e (filteredThumbnails e ts active search) active search
     = filteredThumbnails e ts active search
   \<and> (toLowerCase e [] = [] \<longrightarrow> filteredThumbnails e ts (js ''All'') [] = ts)"
proof
  show "filteredThumbnails e (filteredThumbnails e ts active search) active search
     = filteredThumbnails e ts active search"
    unfolding filteredThumbnails_def by (auto intro!: filter_cong)
  show "toLowerCase e [] = [] \<longrightarrow> filteredThumbnails e ts (js ''All'') [] = ts"
    by (simp add: filteredThumbnails_def includes_js_def)
qed

theorem filter_idempotent_and_identity_witness:
  "filteredThumbnails sample_env (filteredThumbnails sample_env sample_thumbnails (js ''Vlog'') (js ''TRIP''))
       (js ''Vlog'') (js ''TRIP'')
     = filteredThumbnails sample_env sample_thumbnails (js ''Vlog'') (js ''TRIP'')
   \<and> filteredThumbnails sample_env sample_thumbnails (js ''All'') [] = sample_thumbnails"
  using filter_idempotent_and_identity [of sample_env sample_thumbnails "js ''Vlog''" "js ''TRIP''"]
  by (simp add: sample_env_def lower_ascii_def)

lemma filter_example:
  "filteredThumbnails sample_env sample_thumbnails (js ''Vlog'') (js ''TRIP'') = [sample_thumbnails ! 0]"
  by (simp add: filteredThumbnails_def sample_env_def lower_ascii_def sample_thumbnails_def js_def
      includes_js_def sublist_code)

subsection \<open>Validation\<close>

lemma size_limit_double: "(of_nat n \<le> MAX_IMAGE_FILE_SIZE_BYTES) = (n \<le> 734003)"
proof
  assume le: "of_nat n \<le> MAX_IMAGE_FILE_SIZE_BYTES"
  show "n \<le> 734003"
  proof (rule ccontr)
    assume "\<not> n \<le> 734003"
    then have "734004 \<le> n" by simp
    then have "(of_nat 734004 :: rat) \<le> of_nat n" by (simp only: of_nat_le_iff)
    with le show False
      by (simp add: MAX_IMAGE_FILE_SIZE_BYTES_def MAX_IMAGE_FILE_SIZE_MB_def)
  qed
next
  assume "n \<le> 734003"
  then have "(of_nat n :: rat) \<le> of_nat 734003" by (simp only: of_nat_le_iff)
  then show "of_nat n \<le> MAX_IMAGE_FILE_SIZE_BYTES"
    by (simp add: MAX_IMAGE_FILE_SIZE_BYTES_def MAX_IMAGE_FILE_SIZE_MB_def)
qed

lemma size_limit_ideal: "((of_nat n :: rat) \<le> 7 / 10 * 1024 * 1024) = (n \<le> 734003)"
proof
  assume le: "(of_nat n :: rat) \<le> 7 / 10 * 1024 * 1024"
  show "n \<le> 734003"
  proof (rule ccontr)
    assume "\<not> n \<le> 734003"
    then have "734004 \<le> n" by simp
    then have "(of_nat 734004 :: rat) \<le> of_nat n" by (simp only: of_nat_le_iff)
    with le show False by simp
  qed
next
  assume "n \<le> 734003"
  then have "(of_nat n :: rat) \<le> of_nat 734003" by (simp only: of_nat_le_iff)
  then show "(of_nat n :: rat) \<le> 7 / 10 * 1024 * 1024" by simp
qed

lemma uploadSchema_size:
  "uploadSchema f = Inr v \<Longrightarrow> image_size_ok (image_field f)"
  by (auto simp: uploadSchema_def parsed_def split: option.splits if_splits)

text \<open>
  C8. The ceiling before encoding is 0.7 MiB, that is 734,003.2 bytes. The size of a
  file is a whole number of bytes, and the double that the code compares it with lies
  between 734,003 and 734,004, as does 734,003.2. A form whose first file is larger is
  refused by the schema, and the submit handler is not called: the state, with the
  requests issued, is what it was, so nothing was read or encoded. A file of at most that
  size passes this check.
\<close>

theorem precheck_rejects_large_file:
  assumes "image_field f = file # rest"
  shows "((7 / 10 * 1024 * 1024 :: rat) < of_nat (size_file file) \<longrightarrow>
            (\<exists>issues. uploadSchema f = Inl issues)
          \<and> handleSubmit uploadSchema (onUploadSubmit e) f s = s)
       \<and> (of_nat (size_file file) \<le> (7 / 10 * 1024 * 1024 :: rat) \<longrightarrow>
            image_size_ok (image_field f))"
proof (intro conjI impI)
  assume "(7 / 10 * 1024 * 1024 :: rat) < of_nat (size_file file)"
  then have "\<not> size_file file \<le> 734003"
    using size_limit_ideal [of "size_file file"] by simp
  then have no: "\<not> image_size_ok (image_field f)"
    using assms by (simp add: image_size_ok_def size_limit_double)
  then show bad: "\<exists>issues. uploadSchema f = Inl issues"
    using uploadSchema_size [of f] by (cases "uploadSchema f") auto
  then show "handleSubmit uploadSchema (onUploadSubmit e) f s = s"
    by (auto simp: handleSubmit_def)
next
  assume "of_nat (size_file file) \<le> (7 / 10 * 1024 * 1024 :: rat)"
  then have "size_file file \<le> 734003"
    using size_limit_ideal [of "size_file file"] by simp
  then show "image_size_ok (image_field f)"
    using assms by (simp add: image_size_ok_def size_limit_double)
qed

theorem precheck_rejects_large_file_witness:
  "handleSubmit uploadSchema (onUploadSubmit sample_env) large_form sample_home = sample_home
   \<and> image_size_ok (image_field sample_form)"
  using precheck_rejects_large_file [of large_form "\<lparr>size_file = 734004\<rparr>" "[]" sample_env sample_home]
    precheck_rejects_large_file [of sample_form "\<lparr>size_file = 3\<rparr>" "[]" sample_env sample_home]
  by (simp add: large_form_def sample_form_def)

text \<open>
  C7, as stated, fails: both schemas take any string as the category. A form with the
  category "All" passes \<open>uploadSchema\<close> and \<open>editSchema\<close>, and the upload writes
  a document with the category "All" to the store and puts it at the head of the list.
\<close>

theorem category_All_accepted_counterexample:
  "uploadSchema all_form =
     Inr \<lparr>title = js ''abc'', category = js ''All'', image = [\<lparr>size_file = 3\<rparr>]\<rparr>
   \<and> editSchema \<lparr>title_field = Some (js ''abc''), category_field = Some (js ''All'')\<rparr> =
     Inr \<lparr>title = js ''abc'', category = js ''All''\<rparr>
   \<and> calls (handleSubmit uploadSchema (onUploadSubmit sample_env) all_form sample_home) =
     [ReadAsDataURL \<lparr>size_file = 3\<rparr>,
      AddDoc \<lparr>title = js ''abc'', category = js ''All'',
              imageUrl = js ''data:image/png;base64,DDDD'', createdAt = 4\<rparr>]
   \<and> thumbnails (handleSubmit uploadSchema (onUploadSubmit sample_env) all_form sample_home) =
     \<lparr>title = js ''abc'', category = js ''All'', imageUrl = js ''data:image/png;base64,DDDD'',
      createdAt = 4, id_of = js ''t4''\<rparr> # sample_thumbnails
   \<and> js ''All'' \<notin> {js ''Gaming'', js ''Vlog'', js ''Tutorial'', js ''Lifestyle'', js ''Tech'',
        js ''Cooking'', js ''Education''}"
proof -
  have size: "getByteLength (js ''data:image/png;base64,DDDD'') \<le> MAX_DOC_SIZE_BYTES"
    by (simp add: getByteLength_ascii js_def MAX_DOC_SIZE_BYTES_def)
  have up: "uploadSchema all_form =
     Inr \<lparr>title = js ''abc'', category = js ''All'', image = [\<lparr>size_file = 3\<rparr>]\<rparr>"
    by (simp add: uploadSchema_def all_form_def parsed_def title_issues_def category_issues_def
        image_required_def image_size_ok_def MAX_IMAGE_FILE_SIZE_BYTES_def
        MAX_IMAGE_FILE_SIZE_MB_def js_def)
  have ed: "editSchema \<lparr>title_field = Some (js ''abc''), category_field = Some (js ''All'')\<rparr> =
     Inr \<lparr>title = js ''abc'', category = js ''All''\<rparr>"
    by (simp add: editSchema_def parsed_def title_issues_def category_issues_def js_def)
  have notin: "js ''All'' \<notin> {js ''Gaming'', js ''Vlog'', js ''Tutorial'', js ''Lifestyle'', js ''Tech'',
        js ''Cooking'', js ''Education''}"
    by (simp add: js_def)
  have run: "handleSubmit uploadSchema (onUploadSubmit sample_env) all_form sample_home =
      onUploadSubmit sample_env \<lparr>title = js ''abc'', category = js ''All'', image = [\<lparr>size_file = 3\<rparr>]\<rparr> sample_home"
    by (simp add: handleSubmit_def up)
  have c: "calls (handleSubmit uploadSchema (onUploadSubmit sample_env) all_form sample_home) =
     [ReadAsDataURL \<lparr>size_file = 3\<rparr>,
      AddDoc \<lparr>title = js ''abc'', category = js ''All'',
              imageUrl = js ''data:image/png;base64,DDDD'', createdAt = 4\<rparr>]"
    using size unfolding run
    by (simp add: onUploadSubmit_def Let_def sample_env_def sample_home_def issue_def toast_show_def
        handleUploadDialogClose_def)
  have t: "thumbnails (handleSubmit uploadSchema (onUploadSubmit sample_env) all_form sample_home) =
     \<lparr>title = js ''abc'', category = js ''All'', imageUrl = js ''data:image/png;base64,DDDD'',
      createdAt = 4, id_of = js ''t4''\<rparr> # sample_thumbnails"
    using size unfolding run
    by (simp add: onUploadSubmit_def Let_def sample_env_def sample_home_def issue_def toast_show_def
        handleUploadDialogClose_def new_thumbnail_def)
  from up ed c t notin show ?thesis by (intro conjI)
qed

lemma category_options_eq:
  "category_options = [js ''Gaming'', js ''Vlog'', js ''Tutorial'', js ''Lifestyle'', js ''Tech'',
     js ''Cooking'', js ''Education'']"
  by (simp add: category_options_def categories_def js_def)

lemma editSchema_Inr:
  "editSchema g = Inr w \<Longrightarrow>
     title_field g = Some (title w) \<and> category_field g = Some (category w) \<and> 3 \<le> length (title w)"
  by (auto simp: editSchema_def parsed_def title_issues_def category_issues_def
           split: option.splits if_splits)

lemma calls_onUploadSubmit:
  "calls (onUploadSubmit e v s) = calls s
   \<or> (\<exists>file. calls (onUploadSubmit e v s) = calls s @ [ReadAsDataURL file])
   \<or> (\<exists>file url. calls (onUploadSubmit e v s) =
         calls s @ [ReadAsDataURL file,
           AddDoc \<lparr>title = title v, category = category v, imageUrl = url, createdAt = now e\<rparr>])"
  by (auto simp: onUploadSubmit_def Let_def issue_def upload_catch_frame toast_show_def
        handleUploadDialogClose_def split: list.splits sum.splits)

lemma calls_onEditSubmit:
  "calls (onEditSubmit e w s) = calls s
   \<or> (\<exists>i. calls (onEditSubmit e w s) =
         calls s @ [UpdateDoc i \<lparr>title = title w, category = category w\<rparr>])"
  by (auto simp: onEditSubmit_def Let_def issue_def toast_show_def handleEditDialogClose_def
        split: option.splits sum.splits)

text \<open>
  C7, amended. The category select of the two dialogs offers exactly the seven categories,
  never "All". The schemas check only that a category was chosen; when the category of
  the form is one of the options of the select, every document that the create and the
  update write to the store has its category among the seven.
\<close>

theorem category_restricted_by_select:
  assumes "category_field f \<in> Some ` set category_options"
    and "category_field g \<in> Some ` set category_options"
  shows "set category_options = {js ''Gaming'', js ''Vlog'', js ''Tutorial'', js ''Lifestyle'',
            js ''Tech'', js ''Cooking'', js ''Education''}
       \<and> js ''All'' \<notin> set category_options
       \<and> (\<forall>c k. c \<in> set (calls (handleSubmit uploadSchema (onUploadSubmit e) f s))
                \<and> c \<notin> set (calls s) \<and> written_category c = Some k
              \<longrightarrow> k \<in> set category_options)
       \<and> (\<forall>c k. c \<in> set (calls (handleSubmit editSchema (onEditSubmit e) g s))
                \<and> c \<notin> set (calls s) \<and> written_category c = Some k
              \<longrightarrow> k \<in> set category_options)"
proof (intro conjI allI impI)
  show "set category_options = {js ''Gaming'', js ''Vlog'', js ''Tutorial'', js ''Lifestyle'',
            js ''Tech'', js ''Cooking'', js ''Education''}"
    by (simp add: category_options_eq)
  show "js ''All'' \<notin> set category_options"
    by (simp add: category_options_def)
next
  fix c k
  assume c: "c \<in> set (calls (handleSubmit uploadSchema (onUploadSubmit e) f s))
      \<and> c \<notin> set (calls s) \<and> written_category c = Some k"
  show "k \<in> set category_options"
  proof (cases "uploadSchema f")
    case (Inl issues)
    with c show ?thesis by (auto simp: handleSubmit_def)
  next
    case (Inr v)
    then have cat: "category v \<in> set category_options"
      using uploadSchema_Inr [OF Inr] assms(1) by auto
    from Inr have run: "handleSubmit uploadSchema (onUploadSubmit e) f s = onUploadSubmit e v s"
      by (simp add: handleSubmit_def)
    from calls_onUploadSubmit [of e v s] c cat show ?thesis
      unfolding run by (auto simp: written_category_def)
  qed
next
  fix c k
  assume c: "c \<in> set (calls (handleSubmit editSchema (onEditSubmit e) g s))
      \<and> c \<notin> set (calls s) \<and> written_category c = Some k"
  show "k \<in> set category_options"
  proof (cases "editSchema g")
    case (Inl issues)
    with c show ?thesis by (auto simp: handleSubmit_def)
  next
    case (Inr w)
    then have cat: "category w \<in> set category_options"
      using editSchema_Inr [OF Inr] assms(2) by auto
    from Inr have run: "handleSubmit editSchema (onEditSubmit e) g s = onEditSubmit e w s"
      by (simp add: handleSubmit_def)
    from calls_onEditSubmit [of e w s] c cat show ?thesis
      unfolding run by (auto simp: written_category_def)
  qed
qed

theorem category_restricted_by_select_witness:
  "calls (handleSubmit uploadSchema (onUploadSubmit sample_env) sample_form sample_home) =
     [ReadAsDataURL \<lparr>size_file = 3\<rparr>,
      AddDoc \<lparr>title = js ''New Video'', category = js ''Tech'',
              imageUrl = js ''data:image/png;base64,DDDD'', createdAt = 4\<rparr>]
   \<and> js ''Tech'' \<in> set category_options
   \<and> js ''All'' \<notin> set category_options"
proof -
  have f: "category_field sample_form \<in> Some ` set category_options"
    by (simp add: sample_form_def category_options_eq)
  have g: "category_field sample_edit_form \<in> Some ` set category_options"
    by (simp add: sample_edit_form_def category_options_eq)
  note inst = category_restricted_by_select [OF f g, of sample_env sample_home]
  have size: "getByteLength (js ''data:image/png;base64,DDDD'') \<le> MAX_DOC_SIZE_BYTES"
    by (simp add: getByteLength_ascii js_def MAX_DOC_SIZE_BYTES_def)
  have c: "calls (handleSubmit uploadSchema (onUploadSubmit sample_env) sample_form sample_home) =
     [ReadAsDataURL \<lparr>size_file = 3\<rparr>,
      AddDoc \<lparr>title = js ''New Video'', category = js ''Tech'',
              imageUrl = js ''data:image/png;base64,DDDD'', createdAt = 4\<rparr>]"
    using size
    by (simp add: handleSubmit_def sample_form_valid onUploadSubmit_def Let_def sample_env_def
        sample_home_def issue_def toast_show_def handleUploadDialogClose_def)
  have m: "AddDoc \<lparr>title = js ''New Video'', category = js ''Tech'',
              imageUrl = js ''data:image/png;base64,DDDD'', createdAt = 4\<rparr>
      \<in> set (calls (handleSubmit uploadSchema (onUploadSubmit sample_env) sample_form sample_home))"
    by (simp add: c)
  have n: "AddDoc \<lparr>title = js ''New Video'', category = js ''Tech'',
              imageUrl = js ''data:image/png;base64,DDDD'', createdAt = 4\<rparr> \<notin> set (calls sample_home)"
    by (simp add: sample_home_def)
  have w: "written_category (AddDoc \<lparr>title = js ''New Video'', category = js ''Tech'',
              imageUrl = js ''data:image/png;base64,DDDD'', createdAt = 4\<rparr>) = Some (js ''Tech'')"
    by (simp add: written_category_def)
  from inst m n w have "js ''Tech'' \<in> set category_options" by blast
  with inst c show ?thesis by blast
qed

subsection \<open>Download\<close>

lemma concat_runs: "concat (runs P xs) = xs"
  by (induction P xs rule: runs.induct) simp_all

lemma replace_spaces_no_space_prefix:
  "\<forall>c \<in> set pre. \<not> isSpace c \<Longrightarrow> replace_spaces (pre @ rest) = pre @ replace_spaces rest"
  by (induction pre) simp_all

lemma replace_spaces_runs: "replace_spaces t = underscore_runs_spec t"
proof (induction "isSpace" t rule: runs.induct)
  case 1
  show ?case by (simp add: underscore_runs_spec_def)
next
  case (2 x xs)
  show ?case
  proof (cases "isSpace x")
    case True
    then have same: "(\<lambda>y. isSpace y = isSpace x) = isSpace" by auto
    from 2 True show ?thesis
      by (simp add: underscore_runs_spec_def same)
  next
    case False
    then have same: "(\<lambda>y. isSpace y = isSpace x) = (\<lambda>y. \<not> isSpace y)" by auto
    have "replace_spaces (x # xs) =
        x # replace_spaces (takeWhile (\<lambda>y. \<not> isSpace y) xs @ dropWhile (\<lambda>y. \<not> isSpace y) xs)"
      using False by simp
    also have "\<dots> = x # takeWhile (\<lambda>y. \<not> isSpace y) xs
        @ replace_spaces (dropWhile (\<lambda>y. \<not> isSpace y) xs)"
      by (subst replace_spaces_no_space_prefix) (auto dest: set_takeWhileD)
    finally show ?thesis
      using 2 False by (simp add: underscore_runs_spec_def same)
  qed
qed

lemma split_js_unfold:
  "split_js c s =
     takeWhile (\<lambda>x. x \<noteq> c) s
       # (if c \<in> set s then split_js c (tl (dropWhile (\<lambda>x. x \<noteq> c) s)) else [])"
  by (induction s) (auto split: list.splits)

lemma split_js_first: "at_js (split_js c s) 0 = Some (takeWhile (\<lambda>x. x \<noteq> c) s)"
  by (subst split_js_unfold) (simp add: at_js_def)

lemma split_js_second:
  "at_js (split_js c s) (Suc 0) =
     (if c \<in> set s
      then Some (takeWhile (\<lambda>x. x \<noteq> c) (tl (dropWhile (\<lambda>x. x \<noteq> c) s)))
      else None)"
proof (cases "c \<in> set s")
  case True
  have "split_js c s = takeWhile (\<lambda>x. x \<noteq> c) s # split_js c (tl (dropWhile (\<lambda>x. x \<noteq> c) s))"
    using True by (subst split_js_unfold) simp
  also have "split_js c (tl (dropWhile (\<lambda>x. x \<noteq> c) s)) =
      takeWhile (\<lambda>x. x \<noteq> c) (tl (dropWhile (\<lambda>x. x \<noteq> c) s)) #
        (if c \<in> set (tl (dropWhile (\<lambda>x. x \<noteq> c) s))
         then split_js c (tl (dropWhile (\<lambda>x. x \<noteq> c) (tl (dropWhile (\<lambda>x. x \<noteq> c) s)))) else [])"
    by (rule split_js_unfold)
  finally show ?thesis using True by (simp add: at_js_def)
next
  case False
  then show ?thesis by (subst split_js_unfold) (simp add: at_js_def)
qed

lemma second_segment_empty:
  assumes "0x2F \<notin> set (takeWhile (\<lambda>c. c \<noteq> 0x3B) url)"
  shows "second_segment url = []"
proof -
  have "dropWhile (\<lambda>c. c \<noteq> 0x2F) (takeWhile (\<lambda>c. c \<noteq> 0x3B) url) = []"
    using assms by (auto simp: dropWhile_eq_Nil_conv)
  then show ?thesis by (simp only: second_segment_def drop_Nil takeWhile.simps)
qed

lemma handleDownload_eq:
  "handleDownload url t =
     Some \<lparr>href = url,
           download = underscore_runs_spec t @ js ''.''
             @ (if second_segment url = [] then js ''png'' else second_segment url)\<rparr>"
proof (cases "0x2F \<in> set (takeWhile (\<lambda>c. c \<noteq> 0x3B) url)")
  case True
  then show ?thesis
    by (simp add: handleDownload_def split_js_first split_js_second replace_spaces_runs
        second_segment_def drop_Suc)
next
  case False
  then show ?thesis
    by (simp add: handleDownload_def split_js_first split_js_second replace_spaces_runs
        second_segment_empty)
qed

lemma takeWhile_until:
  "c \<notin> set m \<Longrightarrow> takeWhile (\<lambda>x. x \<noteq> c) (m @ c # r) = m"
  by (induction m) auto

lemma dropWhile_until:
  "c \<notin> set m \<Longrightarrow> dropWhile (\<lambda>x. x \<noteq> c) (m @ c # r) = c # r"
  by (induction m) auto

lemma first_index_until:
  "c \<notin> set m \<Longrightarrow> first_index c (m @ c # r) = Some (length m)"
  by (simp add: first_index_def takeWhile_until)

lemma subtype_spec_one_slash:
  assumes "0x2F \<notin> set a" "0x3B \<notin> set a" "0x2F \<notin> set b" "0x3B \<notin> set b"
  shows "subtype_spec (a @ 0x2F # b @ 0x3B # r) = Some b"
    and "second_segment (a @ 0x2F # b @ 0x3B # r) = b"
proof -
  have slash: "first_index 0x2F (a @ 0x2F # b @ 0x3B # r) = Some (length a)"
    using assms(1) by (rule first_index_until)
  have "first_index 0x3B ((a @ 0x2F # b) @ 0x3B # r) = Some (length (a @ 0x2F # b))"
    using assms(2,4) by (intro first_index_until) simp
  then have semi: "first_index 0x3B (a @ 0x2F # b @ 0x3B # r) = Some (length a + 1 + length b)"
    by simp
  show "subtype_spec (a @ 0x2F # b @ 0x3B # r) = Some b"
    by (simp add: subtype_spec_def slash semi)
  have "takeWhile (\<lambda>c. c \<noteq> 0x3B) ((a @ 0x2F # b) @ 0x3B # r) = a @ 0x2F # b"
    using assms(2,4) by (intro takeWhile_until) simp
  then have mime: "takeWhile (\<lambda>c. c \<noteq> 0x3B) (a @ 0x2F # b @ 0x3B # r) = a @ 0x2F # b"
    by simp
  have rest: "dropWhile (\<lambda>c. c \<noteq> 0x2F) (a @ 0x2F # b) = 0x2F # b"
    using assms(1) by (rule dropWhile_until)
  have all: "takeWhile (\<lambda>c. c \<noteq> 0x2F) b = b"
    using assms(3) by (auto simp: takeWhile_eq_all_conv)
  show "second_segment (a @ 0x2F # b @ 0x3B # r) = b"
    by (simp add: second_segment_def mime rest all)
qed

lemma subtype_spec_no_slash:
  assumes "0x2F \<notin> set m" "0x3B \<notin> set m"
  shows "subtype_spec (m @ 0x3B # r) = None"
proof -
  have semi: "first_index 0x3B (m @ 0x3B # r) = Some (length m)"
    using assms(2) by (rule first_index_until)
  have "takeWhile (\<lambda>x. x \<noteq> 0x2F) (m @ 0x3B # r) = m @ takeWhile (\<lambda>x. x \<noteq> 0x2F) (0x3B # r)"
    using assms(1) by (intro takeWhile_append2) auto
  then have far: "length m \<le> length (takeWhile (\<lambda>x. x \<noteq> 0x2F) (m @ 0x3B # r))"
    by simp
  show ?thesis
  proof (cases "first_index 0x2F (m @ 0x3B # r)")
    case None
    then show ?thesis by (simp add: subtype_spec_def)
  next
    case (Some i)
    then have "i = length (takeWhile (\<lambda>x. x \<noteq> 0x2F) (m @ 0x3B # r))"
      by (simp add: first_index_def split: if_splits)
    with far have "\<not> i < length m" by simp
    with Some semi show ?thesis by (simp add: subtype_spec_def)
  qed
qed

lemma extension_agrees:
  assumes "0x3B \<in> set url"
    and "count_list (takeWhile (\<lambda>c. c \<noteq> 0x3B) url) 0x2F \<le> 1"
  shows "(case subtype_spec url of None \<Rightarrow> js ''png'' | Some x \<Rightarrow> if x = [] then js ''png'' else x)
       = (if second_segment url = [] then js ''png'' else second_segment url)"
proof -
  from assms(1) obtain m r where url: "url = m @ 0x3B # r" and m: "0x3B \<notin> set m"
    by (auto dest: split_list_first)
  have mime: "takeWhile (\<lambda>c. c \<noteq> 0x3B) url = m"
    unfolding url using m by (rule takeWhile_until)
  show ?thesis
  proof (cases "0x2F \<in> set m")
    case True
    then obtain a b where ab: "m = a @ 0x2F # b" and a: "0x2F \<notin> set a"
      by (auto dest: split_list_first)
    from assms(2) have "count_list b 0x2F = 0"
      unfolding mime ab by simp
    then have b: "0x2F \<notin> set b"
      by (simp add: count_list_0_iff)
    from m ab have semi: "0x3B \<notin> set a" "0x3B \<notin> set b" by auto
    have shape: "url = a @ 0x2F # b @ 0x3B # r"
      by (simp add: url ab)
    show ?thesis
      unfolding shape by (simp add: subtype_spec_one_slash [OF a semi(1) b semi(2)])
  next
    case False
    then have "second_segment url = []"
      by (intro second_segment_empty) (simp add: mime)
    moreover have "subtype_spec url = None"
      unfolding url using False m by (rule subtype_spec_no_slash)
    ultimately show ?thesis by simp
  qed
qed

lemma handleDownload_meets_spec:
  assumes "0x3B \<in> set url"
    and "count_list (takeWhile (\<lambda>c. c \<noteq> 0x3B) url) 0x2F \<le> 1"
  shows "handleDownload url t = Some \<lparr>href = url, download = download_name_spec url t\<rparr>"
  using assms by (simp add: handleDownload_eq download_name_spec_def extension_agrees)

lemma data_uri_mime:
  assumes "0x3B \<notin> set mime"
  shows "takeWhile (\<lambda>c. c \<noteq> 0x3B) (js ''data:'' @ mime @ 0x3B # rest) = js ''data:'' @ mime"
proof -
  have "0x3B \<notin> set (js ''data:'' @ mime)"
    using assms by (simp add: js_def)
  then have "takeWhile (\<lambda>c. c \<noteq> 0x3B) ((js ''data:'' @ mime) @ 0x3B # rest) = js ''data:'' @ mime"
    by (rule takeWhile_until)
  then show ?thesis by simp
qed

text \<open>
  C10. For every record whose image is a data URI, \<^verbatim>\<open>data:\<close> followed by a MIME type
  (with at most one slash) and a semicolon, \<^verbatim>\<open>handleDownload\<close> builds the file name
  from the record alone: the title with every maximal run of white space replaced by one
  underscore, a dot, and the text between the first slash and the first semicolon of the
  URI, or "png" when there is no such text. This is the shape of every URI that
  \<^verbatim>\<open>readAsDataURL\<close> gives; \<open>handleDownload_eq\<close> says what the name is for any string.
\<close>

theorem download_name_from_record:
  assumes "imageUrl r = js ''data:'' @ mime @ 0x3B # rest"
    and "0x3B \<notin> set mime"
    and "count_list mime 0x2F \<le> 1"
  shows "handleDownload (imageUrl r) (title r) =
           Some \<lparr>href = imageUrl r, download = download_name_spec (imageUrl r) (title r)\<rparr>"
proof (rule handleDownload_meets_spec)
  show "0x3B \<in> set (imageUrl r)"
    by (simp add: assms(1))
  have "count_list (js ''data:'' @ mime) 0x2F = count_list mime 0x2F"
    by (simp add: js_def)
  then show "count_list (takeWhile (\<lambda>c. c \<noteq> 0x3B) (imageUrl r)) 0x2F \<le> 1"
    using assms(3) by (simp add: assms(1) data_uri_mime [OF assms(2)])
qed

theorem download_name_from_record_witness:
  "handleDownload (imageUrl svg_thumbnail) (title svg_thumbnail) =
     Some \<lparr>href = js ''data:image/svg+xml;base64,AAAA'', download = js ''My_Trip_to_Japan.svg+xml''\<rparr>
   \<and> handleDownload (imageUrl (sample_thumbnails ! 1)) (title (sample_thumbnails ! 1)) =
     Some \<lparr>href = js ''data:image/jpeg;base64,BBBB'', download = js ''React_Hooks.jpeg''\<rparr>"
proof -
  have shape: "imageUrl svg_thumbnail = js ''data:'' @ js ''image/svg+xml'' @ 0x3B # js ''base64,AAAA''"
    "0x3B \<notin> set (js ''image/svg+xml'')" "count_list (js ''image/svg+xml'') 0x2F \<le> 1"
    by (simp_all add: svg_thumbnail_def js_def)
  have name: "download_name_spec (imageUrl svg_thumbnail) (title svg_thumbnail)
       = js ''My_Trip_to_Japan.svg+xml''"
    by (simp add: svg_thumbnail_def download_name_spec_def underscore_runs_spec_def subtype_spec_def
      first_index_def isSpace_def js_def)
  have shape1: "imageUrl (sample_thumbnails ! 1) = js ''data:'' @ js ''image/jpeg'' @ 0x3B # js ''base64,BBBB''"
    "0x3B \<notin> set (js ''image/jpeg'')" "count_list (js ''image/jpeg'') 0x2F \<le> 1"
    by (simp_all add: sample_thumbnails_def js_def)
  have name1: "download_name_spec (imageUrl (sample_thumbnails ! 1)) (title (sample_thumbnails ! 1))
       = js ''React_Hooks.jpeg''"
    by (simp add: sample_thumbnails_def download_name_spec_def underscore_runs_spec_def subtype_spec_def
      first_index_def isSpace_def js_def)
  have url: "imageUrl svg_thumbnail = js ''data:image/svg+xml;base64,AAAA''"
    "imageUrl (sample_thumbnails ! 1) = js ''data:image/jpeg;base64,BBBB''"
    by (simp_all add: svg_thumbnail_def sample_thumbnails_def)
  from download_name_from_record [OF shape] download_name_from_record [OF shape1] name name1 url
  show ?thesis by simp
qed

subsection \<open>Critique\<close>

lemma z_number_min_max_range:
  "z_number_min_max lo hi v = Some x \<Longrightarrow> lo \<le> x \<and> x \<le> hi"
  by (auto simp: z_number_min_max_def split: option.splits json.splits jsnumber.splits if_splits)

lemma critique_scores_in_range:
  assumes "critiqueThumbnail prompt input = Inr r"
  shows "0 \<le> engagementScore r \<and> engagementScore r \<le> 100
       \<and> 0 \<le> clarityScore r \<and> clarityScore r \<le> 100
       \<and> 0 \<le> colorScore r \<and> colorScore r \<le> 100"
  using assms
  by (auto simp: critiqueThumbnail_def critiqueThumbnailFlow_def CritiqueThumbnailOutputSchema_def
        split: sum.splits option.splits json.splits dest!: z_number_min_max_range)

text \<open>
  C9. A successful result of the critique has its three scores between 0 and 100
  (\<open>critique_scores_in_range\<close>), a string as verdict and a list of strings as
  suggestions. The schema describes the list as one of 2 to 4 suggestions and does not
  check its length: an output of the model with an empty list of suggestions is returned
  as a successful result.
\<close>

theorem critique_accepts_no_suggestions:
  "critiqueThumbnail (\<lambda>i. Inr no_suggestions) \<lparr>imageDataUri = js ''data:image/png;base64,AAAA''\<rparr> =
     Inr \<lparr>engagementScore = 80, clarityScore = 65, colorScore = 100,
          overallVerdict = js ''Clear and bold.'', suggestions = []\<rparr>"
  by (simp add: critiqueThumbnail_def critiqueThumbnailFlow_def CritiqueThumbnailOutputSchema_def
      no_suggestions_def z_number_min_max_def z_string_def z_array_string_def)

end
